theory Spec2Isabelle
  imports Main
begin

section \<open>Configuration\<close>

text \<open>
  The two constants at the top of \<^verbatim>\<open>src/src/App.tsx\<close>:
  \<^verbatim>\<open>const USE_REAL_BACKEND = true; const API_BASE_URL = "http://localhost:3000";\<close>
\<close>

definition USE_REAL_BACKEND :: bool where
  "USE_REAL_BACKEND = True"

definition API_BASE_URL :: string where
  "API_BASE_URL = ''http://localhost:3000''"

section \<open>Types\<close>

text \<open>
  \<^verbatim>\<open>interface Meeting\<close> and \<^verbatim>\<open>interface User\<close>. The field \<^verbatim>\<open>id\<close> is
  written \<open>meeting_id\<close> (HOL has a constant \<open>id\<close>); \<^verbatim>\<open>attendees\<close>, an array of
  objects with the single field \<^verbatim>\<open>email\<close>, is the list of those emails. The optional
  fields \<^verbatim>\<open>description?\<close> and \<^verbatim>\<open>link?\<close> are options.
\<close>

record Meeting =
  meeting_id :: string
  title :: string
  startTime :: string
  endTime :: string
  attendees :: "string list"
  description :: "string option"
  link :: "string option"

record User =
  name :: string
  email :: string
  avatar :: string

text \<open>The type of the \<^verbatim>\<open>data\<close> state: \<^verbatim>\<open>{ upcoming: Meeting[]; past: Meeting[] }\<close>.\<close>

record meeting_data =
  upcoming :: "Meeting list"
  past :: "Meeting list"

text \<open>
  JavaScript truthiness of an optional string, as \<^verbatim>\<open>if (data.authUrl)\<close>,
  \<^verbatim>\<open>meeting.link &&\<close> and \<^verbatim>\<open>error &&\<close> test it: an absent field and the empty
  string are falsy.
\<close>

definition truthy :: "string option \<Rightarrow> bool" where
  "truthy s = (case s of None \<Rightarrow> False | Some t \<Rightarrow> t \<noteq> [])"

section \<open>The state of the component, the window, and the trace of effects\<close>

text \<open>The five \<^verbatim>\<open>useState\<close> cells of \<^verbatim>\<open>App\<close>.\<close>

record app_state =
  useReal :: bool
  user :: "User option"
  data :: meeting_data
  loading :: bool
  error :: "string option"

text \<open>
  What the code reads and writes of the browser window: the path and the decoded query
  parameters of the page URL (\<^verbatim>\<open>window.location.search\<close>), and the navigation target
  assigned to \<^verbatim>\<open>window.location.href\<close> (\<open>None\<close> while nothing was assigned).
  The setter of \<^verbatim>\<open>window.location.href\<close> parses the string it is given as a URL and throws
  when that fails (as on \<^verbatim>\<open>"https://"\<close>). The parser belongs to the browser, not to this
  repository: it is the parameter \<open>href_accepts\<close> of the window, which no code changes.
\<close>

record window =
  pathname :: string
  search :: "(string \<times> string) list"
  location_href :: "string option"
  href_accepts :: "string \<Rightarrow> bool"

text \<open>
  What the remote backend answers, given to the model as an input. For
  \<^verbatim>\<open>POST /auth/login\<close>: the request fails (\<^verbatim>\<open>fetch\<close> rejects), or a response
  arrives whose body \<^verbatim>\<open>res.json()\<close> either cannot read as an object (\<open>None\<close>) or reads
  as an object with the optional fields \<^verbatim>\<open>user\<close> and \<^verbatim>\<open>authUrl\<close>. The status of that
  response is not part of the reply: \<^verbatim>\<open>login\<close> never reads \<^verbatim>\<open>res.ok\<close>.
  For \<^verbatim>\<open>GET /api/meetings\<close>: the request fails, or a response arrives with its
  \<^verbatim>\<open>ok\<close> flag and its body.
\<close>

record login_json =
  data_user :: "User option"
  data_authUrl :: "string option"

datatype login_reply = LoginNoResponse | LoginResponse "login_json option"

datatype fetch_reply = FetchNoResponse | FetchResponse bool "meeting_data option"

text \<open>
  The errors the two services throw: a failed request, an unreadable body, the exception
  of the \<^verbatim>\<open>href\<close> setter on a string that is no URL,
  \<^verbatim>\<open>new Error("Server returned invalid login state")\<close> and
  \<^verbatim>\<open>new Error("Failed to fetch")\<close>.
\<close>

datatype error = TransportError | BodyError | InvalidUrl | InvalidLoginState | FailedToFetch

text \<open>
  Every effect, in the order the code performs it: a state setter called, a service
  entered and its promise settled, an assignment to \<^verbatim>\<open>window.location.href\<close>, a call of
  \<^verbatim>\<open>console.error\<close>, a call of \<^verbatim>\<open>window.history.replaceState\<close>.
\<close>

datatype setter =
    SetUseReal bool
  | SetUser "User option"
  | SetData meeting_data
  | SetLoading bool
  | SetError "string option"

datatype event =
    StateSet setter
  | LoginCalled bool
  | LoginSettled "error + User option"
  | FetchMeetingsCalled bool
  | FetchMeetingsSettled "error + meeting_data"
  | LocationAssigned string
  | ConsoleError error
  | HistoryReplaced string

record world =
  app :: app_state
  win :: window
  log :: "event list"

definition emit :: "event \<Rightarrow> world \<Rightarrow> world" where
  "emit e w = w\<lparr>log := log w @ [e]\<rparr>"

definition events_since :: "world \<Rightarrow> world \<Rightarrow> event list" where
  "events_since w w' = drop (length (log w)) (log w')"

text \<open>How many times a trace enters \<^verbatim>\<open>login\<close>, and \<^verbatim>\<open>fetchMeetings\<close>.\<close>

definition login_calls :: "event list \<Rightarrow> nat" where
  "login_calls evs = length (filter (\<lambda>e. case e of LoginCalled b \<Rightarrow> True | _ \<Rightarrow> False) evs)"

definition fetch_calls :: "event list \<Rightarrow> nat" where
  "fetch_calls evs = length (filter (\<lambda>e. case e of FetchMeetingsCalled b \<Rightarrow> True | _ \<Rightarrow> False) evs)"

definition setUseReal :: "bool \<Rightarrow> world \<Rightarrow> world" where
  "setUseReal b w = emit (StateSet (SetUseReal b)) (w\<lparr>app := (app w)\<lparr>useReal := b\<rparr>\<rparr>)"

definition setUser :: "User option \<Rightarrow> world \<Rightarrow> world" where
  "setUser u w = emit (StateSet (SetUser u)) (w\<lparr>app := (app w)\<lparr>user := u\<rparr>\<rparr>)"

definition setData :: "meeting_data \<Rightarrow> world \<Rightarrow> world" where
  "setData d w = emit (StateSet (SetData d)) (w\<lparr>app := (app w)\<lparr>data := d\<rparr>\<rparr>)"

definition setLoading :: "bool \<Rightarrow> world \<Rightarrow> world" where
  "setLoading b w = emit (StateSet (SetLoading b)) (w\<lparr>app := (app w)\<lparr>loading := b\<rparr>\<rparr>)"

definition setError :: "string option \<Rightarrow> world \<Rightarrow> world" where
  "setError e w = emit (StateSet (SetError e)) (w\<lparr>app := (app w)\<lparr>error := e\<rparr>\<rparr>)"

section \<open>Services\<close>

text \<open>
  \<^verbatim>\<open>login(useReal)\<close>, lines 37 to 69. The function is asynchronous: it runs up to its
  first suspension (the timer of the mock branch is started, or the request of the real
  branch is sent), and the rest runs when the reply is there. \<open>login_issue\<close> is the first
  part, \<open>login_settle\<close> the second, \<open>login\<close> both. The result is \<open>Inl\<close> of the error
  when the promise rejects, \<open>Inr\<close> of the user or of \<open>None\<close> (\<^verbatim>\<open>null\<close>) when it resolves.
  The \<^verbatim>\<open>catch\<close> of the real branch logs the error and throws it again; the
  assignment \<^verbatim>\<open>window.location.href = data.authUrl\<close> stands inside that \<^verbatim>\<open>try\<close>, so
  an \<^verbatim>\<open>authUrl\<close> the setter refuses makes \<^verbatim>\<open>login\<close> reject, with no navigation target
  set.
\<close>

definition demo_user :: User where
  "demo_user = \<lparr>name = ''Demo User'', email = ''demo@example.com'',
     avatar = ''https://ui-avatars.com/api/?name=Demo+User&background=0D8ABC&color=fff''\<rparr>"

definition login_issue :: "bool \<Rightarrow> world \<Rightarrow> world" where
  "login_issue ur w = emit (LoginCalled ur) w"

definition login_throw :: "error \<Rightarrow> world \<Rightarrow> (error + User option) \<times> world" where
  "login_throw e w = (Inl e, emit (LoginSettled (Inl e)) (emit (ConsoleError e) w))"

definition login_settle :: "bool \<Rightarrow> login_reply \<Rightarrow> world \<Rightarrow> (error + User option) \<times> world" where
  "login_settle ur reply w =
     (if \<not> ur then (Inr (Some demo_user), emit (LoginSettled (Inr (Some demo_user))) w)
      else
        (case reply of
           LoginNoResponse \<Rightarrow> login_throw TransportError w
         | LoginResponse None \<Rightarrow> login_throw BodyError w
         | LoginResponse (Some d) \<Rightarrow>
             (case data_user d of
                Some u \<Rightarrow> (Inr (Some u), emit (LoginSettled (Inr (Some u))) w)
              | None \<Rightarrow>
                  if truthy (data_authUrl d)
                  then
                    if href_accepts (win w) (the (data_authUrl d))
                    then (Inr None,
                          emit (LoginSettled (Inr None))
                            (emit (LocationAssigned (the (data_authUrl d)))
                               (w\<lparr>win := (win w)\<lparr>location_href := data_authUrl d\<rparr>\<rparr>)))
                    else login_throw InvalidUrl w
                  else login_throw InvalidLoginState w)))"

definition login :: "bool \<Rightarrow> login_reply \<Rightarrow> world \<Rightarrow> (error + User option) \<times> world" where
  "login ur reply w = login_settle ur reply (login_issue ur w)"

text \<open>\<^verbatim>\<open>fetchMeetings(useReal)\<close>, lines 71 to 79.\<close>

definition fetchMeetings_settle :: "(error + meeting_data) \<Rightarrow> world \<Rightarrow> (error + meeting_data) \<times> world" where
  "fetchMeetings_settle r w = (r, emit (FetchMeetingsSettled r) w)"

definition fetchMeetings :: "bool \<Rightarrow> fetch_reply \<Rightarrow> world \<Rightarrow> (error + meeting_data) \<times> world" where
  "fetchMeetings ur reply w0 =
     (let w = emit (FetchMeetingsCalled ur) w0 in
      if \<not> ur then fetchMeetings_settle (Inr \<lparr>upcoming = [], past = []\<rparr>) w
      else
        (case reply of
           FetchNoResponse \<Rightarrow> fetchMeetings_settle (Inl TransportError) w
         | FetchResponse ok body \<Rightarrow>
             if \<not> ok then fetchMeetings_settle (Inl FailedToFetch) w
             else
               (case body of
                  None \<Rightarrow> fetchMeetings_settle (Inl BodyError) w
                | Some d \<Rightarrow> fetchMeetings_settle (Inr d) w)))"

section \<open>The component\<close>

text \<open>
  \<^verbatim>\<open>handleLogin\<close>, lines 132 to 147. It reads \<^verbatim>\<open>useReal\<close> from the closure of the
  render that created it (\<open>ur\<close>) and otherwise only calls setters. \<open>handleLogin_begin\<close>
  runs to the suspension inside \<^verbatim>\<open>login\<close>; \<open>handleLogin_resume\<close> is the rest:
  the \<^verbatim>\<open>try\<close> body after the \<^verbatim>\<open>await\<close>, the \<^verbatim>\<open>catch\<close> (one message for every
  error) and the \<^verbatim>\<open>finally\<close>.
\<close>

definition connection_failed :: string where
  "connection_failed = ''Connection failed. Is the backend running on port 3000?''"

definition handleLogin_begin :: "bool \<Rightarrow> world \<Rightarrow> world" where
  "handleLogin_begin ur w = login_issue ur (setError None (setLoading True w))"

definition handleLogin_resume :: "bool \<Rightarrow> login_reply \<Rightarrow> fetch_reply \<Rightarrow> world \<Rightarrow> world" where
  "handleLogin_resume ur lr fr w =
     setLoading False
       (case login_settle ur lr w of
          (Inl e, w1) \<Rightarrow> setError (Some connection_failed) w1
        | (Inr None, w1) \<Rightarrow> w1
        | (Inr (Some userData), w1) \<Rightarrow>
            (case fetchMeetings ur fr (setUser (Some userData) w1) of
               (Inl e, w2) \<Rightarrow> setError (Some connection_failed) w2
             | (Inr meetings, w2) \<Rightarrow> setData meetings w2))"

definition handleLogin :: "login_reply \<Rightarrow> fetch_reply \<Rightarrow> world \<Rightarrow> world" where
  "handleLogin lr fr w =
     handleLogin_resume (useReal (app w)) lr fr (handleLogin_begin (useReal (app w)) w)"

text \<open>
  The effect run once after the first render, lines 124 to 130:
  \<^verbatim>\<open>new URLSearchParams(window.location.search).get("status")\<close> is the first value of
  the key, \<^verbatim>\<open>handleLogin()\<close> is called and returns at its suspension, then
  \<^verbatim>\<open>window.history.replaceState({}, document.title, "/")\<close> makes \<^verbatim>\<open>/\<close> the page URL;
  the rest of \<^verbatim>\<open>handleLogin\<close> runs when the reply is there. \<open>replaceState\<close> is
  the call with a URL that is a path without a query, the only kind the code passes.
\<close>

definition URLSearchParams_get :: "(string \<times> string) list \<Rightarrow> string \<Rightarrow> string option" where
  "URLSearchParams_get params k = map_of params k"

definition replaceState :: "string \<Rightarrow> world \<Rightarrow> world" where
  "replaceState url w =
     emit (HistoryReplaced url) (w\<lparr>win := (win w)\<lparr>pathname := url, search := []\<rparr>\<rparr>)"

definition useEffect_mount :: "login_reply \<Rightarrow> fetch_reply \<Rightarrow> world \<Rightarrow> world" where
  "useEffect_mount lr fr w =
     (if URLSearchParams_get (search (win w)) ''status'' = Some ''success'' \<and> useReal (app w)
      then handleLogin_resume (useReal (app w)) lr fr
             (replaceState ''/'' (handleLogin_begin (useReal (app w)) w))
      else w)"

text \<open>The initial values of the state cells, and a page load: first render, then the effect.\<close>

definition initial_state :: app_state where
  "initial_state =
     \<lparr>useReal = USE_REAL_BACKEND, user = None, data = \<lparr>upcoming = [], past = []\<rparr>,
      loading = False, error = None\<rparr>"

definition page_load :: "window \<Rightarrow> login_reply \<Rightarrow> fetch_reply \<Rightarrow> world" where
  "page_load wn lr fr = useEffect_mount lr fr \<lparr>app = initial_state, win = wn, log = []\<rparr>"

text \<open>
  The two inline click handlers: the mode button of the login screen (line 154) and the
  logout button of the dashboard (line 202).
\<close>

definition onClick_mode :: "world \<Rightarrow> world" where
  "onClick_mode w = setUseReal (\<not> useReal (app w)) w"

definition onClick_logout :: "world \<Rightarrow> world" where
  "onClick_logout w = setUser None w"

text \<open>
  What \<^verbatim>\<open>App\<close> returns, lines 149 to 234. The login screen shows the mode label, the
  sign-in button (disabled, with a spinner, while \<^verbatim>\<open>loading\<close>) and the error box when
  \<^verbatim>\<open>error\<close> is truthy. The dashboard holds, for each of the two sections, the meetings
  handed to \<^verbatim>\<open>MeetingCard\<close> and the placeholder shown when the section is empty.
\<close>

datatype view =
    LoginScreen string bool "string option"
  | Dashboard "Meeting list" "string option" "Meeting list" "string option"

definition App :: "app_state \<Rightarrow> view" where
  "App s =
     (case user s of
        None \<Rightarrow>
          LoginScreen (if useReal s then ''Real Backend'' else ''Mock Data'') (loading s)
            (if truthy (error s) then error s else None)
      | Some u \<Rightarrow>
          Dashboard (upcoming (data s))
            (if length (upcoming (data s)) = 0 then Some ''No upcoming meetings.'' else None)
            (past (data s))
            (if length (past (data s)) = 0 then Some ''No past meetings.'' else None))"

text \<open>The meetings a view displays: none on the login screen.\<close>

definition shown_meetings :: "view \<Rightarrow> Meeting list" where
  "shown_meetings v = (case v of LoginScreen m l e \<Rightarrow> [] | Dashboard up p1 pa p2 \<Rightarrow> up @ pa)"

text \<open>
  \<^verbatim>\<open>MeetingCard\<close>, lines 82 to 111. The card shows the date and the time of
  \<^verbatim>\<open>startTime\<close>, the title, the number of attendees and, when \<^verbatim>\<open>link\<close> is truthy, the
  video badge. The two formatters \<^verbatim>\<open>new Date(s).toLocaleDateString()\<close> and
  \<^verbatim>\<open>new Date(s).toLocaleTimeString([], {hour: "2-digit", minute: "2-digit"})\<close> belong to
  the JavaScript runtime, not to this repository: they are parameters, functions of the
  ambient locale, the ambient time zone and the text of the timestamp.
\<close>

record ambient =
  amb_locale :: string
  amb_timeZone :: string

record card =
  card_date :: string
  card_title :: string
  card_time :: string
  card_attendees :: nat
  card_video :: bool

definition MeetingCard ::
  "(string \<Rightarrow> string \<Rightarrow> string \<Rightarrow> string) \<Rightarrow> (string \<Rightarrow> string \<Rightarrow> string \<Rightarrow> string) \<Rightarrow>
   ambient \<Rightarrow> Meeting \<Rightarrow> card" where
  "MeetingCard toLocaleDateString toLocaleTimeString a meeting =
     \<lparr>card_date = toLocaleDateString (amb_locale a) (amb_timeZone a) (startTime meeting),
      card_title = title meeting,
      card_time = toLocaleTimeString (amb_locale a) (amb_timeZone a) (startTime meeting),
      card_attendees = length (attendees meeting),
      card_video = truthy (link meeting)\<rparr>"

section \<open>Concrete inputs\<close>

definition alice :: User where
  "alice = \<lparr>name = ''Alice'', email = ''alice@example.com'', avatar = ''''\<rparr>"

definition standup :: Meeting where
  "standup =
     \<lparr>meeting_id = ''m1'', title = ''Standup'', startTime = ''2024-05-01T09:00:00Z'',
      endTime = ''2024-05-01T09:15:00Z'', attendees = [''alice@example.com''],
      description = None, link = Some ''https://meet.example/m1''\<rparr>"

definition standup_again :: Meeting where
  "standup_again =
     \<lparr>meeting_id = ''m2'', title = ''Standup'', startTime = ''2024-05-01T09:00:00Z'',
      endTime = ''2024-05-01T09:30:00Z'', attendees = [''bob@example.com''],
      description = Some ''daily'', link = Some ''https://meet.example/m2''\<rparr>"

text \<open>
  A stand-in for the browser's URL parser on the concrete inputs below: it refuses
  \<^verbatim>\<open>https://\<close> (a special scheme with an empty host, a failure of the URL Standard) and
  accepts every other string.
\<close>

definition example_parser :: "string \<Rightarrow> bool" where
  "example_parser u = (u \<noteq> ''https://'')"

definition fresh_world :: world where
  "fresh_world =
     \<lparr>app = initial_state, win = \<lparr>pathname = ''/'', search = [], location_href = None,
             href_accepts = example_parser\<rparr>,
      log = []\<rparr>"

definition marker_world :: world where
  "marker_world =
     \<lparr>app = initial_state,
      win = \<lparr>pathname = ''/'', search = [(''status'', ''success'')], location_href = None,
             href_accepts = example_parser\<rparr>,
      log = []\<rparr>"

definition logged_in_world :: world where
  "logged_in_world =
     \<lparr>app = \<lparr>useReal = True, user = Some alice, data = \<lparr>upcoming = [standup], past = []\<rparr>,
             loading = False, error = None\<rparr>,
      win = \<lparr>pathname = ''/'', search = [], location_href = None,
             href_accepts = example_parser\<rparr>, log = []\<rparr>"

definition user_reply :: login_reply where
  "user_reply = LoginResponse (Some \<lparr>data_user = Some alice, data_authUrl = None\<rparr>)"

definition redirect_reply :: login_reply where
  "redirect_reply =
     LoginResponse
       (Some \<lparr>data_user = None, data_authUrl = Some ''https://accounts.google.com/o/oauth2/auth''\<rparr>)"

definition unparseable_reply :: login_reply where
  "unparseable_reply = LoginResponse (Some \<lparr>data_user = None, data_authUrl = Some ''https://''\<rparr>)"

definition empty_reply :: login_reply where
  "empty_reply = LoginResponse (Some \<lparr>data_user = None, data_authUrl = None\<rparr>)"

definition http_500 :: fetch_reply where
  "http_500 = FetchResponse False None"

definition meetings_reply :: fetch_reply where
  "meetings_reply = FetchResponse True (Some \<lparr>upcoming = [standup], past = []\<rparr>)"

section \<open>Unfolding the model\<close>

lemmas setter_defs = emit_def setUseReal_def setUser_def setData_def setLoading_def setError_def

lemmas flow_defs = setter_defs login_issue_def login_throw_def login_settle_def login_def
  fetchMeetings_settle_def fetchMeetings_def handleLogin_begin_def handleLogin_resume_def
  handleLogin_def replaceState_def events_since_def login_calls_def fetch_calls_def

lemmas input_defs = fresh_world_def logged_in_world_def marker_world_def user_reply_def
  redirect_reply_def unparseable_reply_def empty_reply_def example_parser_def http_500_def meetings_reply_def initial_state_def
  USE_REAL_BACKEND_def alice_def standup_def standup_again_def

section \<open>Closed forms of the login flow\<close>

lemma begin_closed:
  "handleLogin_begin ur w =
     w\<lparr>app := (app w)\<lparr>loading := True, error := None\<rparr>,
       log := log w @ [StateSet (SetLoading True), StateSet (SetError None), LoginCalled ur]\<rparr>"
  by (simp add: handleLogin_begin_def login_issue_def setter_defs)

lemma login_settle_rejects_iff:
  "isl (fst (login_settle True lr w)) \<longleftrightarrow>
      lr = LoginNoResponse \<or> lr = LoginResponse None \<or>
      (\<exists>d. lr = LoginResponse (Some d) \<and> data_user d = None \<and>
           (\<not> truthy (data_authUrl d) \<or>
            (\<exists>url. data_authUrl d = Some url \<and> \<not> href_accepts (win w) url)))"
  by (cases lr) (auto simp: login_settle_def login_throw_def truthy_def split: option.splits)

lemma login_settle_rejected:
  "isl (fst (login_settle True lr w)) \<Longrightarrow>
   \<exists>e. login_settle True lr w = (Inl e, w\<lparr>log := log w @ [ConsoleError e, LoginSettled (Inl e)]\<rparr>)"
  by (cases lr)
     (auto simp: login_settle_def login_throw_def emit_def split: option.splits if_splits)

lemma login_reply_cases:
  obtains (rejected) "isl (fst (login_settle True lr w))"
  | (redirect) d url where "lr = LoginResponse (Some d)" "data_user d = None"
      "data_authUrl d = Some url" "url \<noteq> []" "href_accepts (win w) url"
  | (user) d u where "lr = LoginResponse (Some d)" "data_user d = Some u"
proof (cases lr)
  case LoginNoResponse
  then show ?thesis
    using rejected by (simp add: login_settle_rejects_iff)
next
  case (LoginResponse body)
  show ?thesis
  proof (cases body)
    case None
    with LoginResponse show ?thesis
      using rejected by (simp add: login_settle_rejects_iff)
  next
    case (Some d)
    show ?thesis
    proof (cases "data_user d")
      case (Some u)
      with LoginResponse \<open>body = Some d\<close> show ?thesis
        using user by simp
    next
      case None
      show ?thesis
      proof (cases "truthy (data_authUrl d)")
        case True
        then obtain url where url: "data_authUrl d = Some url" "url \<noteq> []"
          by (auto simp: truthy_def split: option.splits)
        show ?thesis
        proof (cases "href_accepts (win w) url")
          case True
          with LoginResponse \<open>body = Some d\<close> None url show ?thesis
            using redirect by simp
        next
          case False
          with LoginResponse \<open>body = Some d\<close> None url show ?thesis
            using rejected by (simp add: login_settle_rejects_iff)
        qed
      next
        case False
        with LoginResponse \<open>body = Some d\<close> None show ?thesis
          using rejected by (simp add: login_settle_rejects_iff)
      qed
    qed
  qed
qed

lemma resume_rejected:
  assumes "isl (fst (login_settle True lr w))"
  shows "\<exists>e. handleLogin_resume True lr fr w =
     w\<lparr>app := (app w)\<lparr>error := Some connection_failed, loading := False\<rparr>,
       log := log w @ [ConsoleError e, LoginSettled (Inl e),
                       StateSet (SetError (Some connection_failed)), StateSet (SetLoading False)]\<rparr>"
proof -
  from login_settle_rejected [OF assms] obtain e where
    "login_settle True lr w = (Inl e, w\<lparr>log := log w @ [ConsoleError e, LoginSettled (Inl e)]\<rparr>)" ..
  then have "handleLogin_resume True lr fr w =
     w\<lparr>app := (app w)\<lparr>error := Some connection_failed, loading := False\<rparr>,
       log := log w @ [ConsoleError e, LoginSettled (Inl e),
                       StateSet (SetError (Some connection_failed)), StateSet (SetLoading False)]\<rparr>"
    by (simp add: handleLogin_resume_def setter_defs)
  then show ?thesis ..
qed

lemma resume_redirect:
  assumes "data_user d = None" "data_authUrl d = Some url" "url \<noteq> []"
    "href_accepts (win w) url"
  shows "handleLogin_resume True (LoginResponse (Some d)) fr w =
     w\<lparr>app := (app w)\<lparr>loading := False\<rparr>,
       win := (win w)\<lparr>location_href := Some url\<rparr>,
       log := log w @ [LocationAssigned url, LoginSettled (Inr None), StateSet (SetLoading False)]\<rparr>"
  using assms
  by (simp add: handleLogin_resume_def login_settle_def truthy_def setter_defs)

lemma fetchMeetings_closed:
  "fetchMeetings ur fr w =
     (fst (fetchMeetings ur fr w),
      w\<lparr>log := log w @ [FetchMeetingsCalled ur, FetchMeetingsSettled (fst (fetchMeetings ur fr w))]\<rparr>)"
  by (cases fr)
     (simp_all add: fetchMeetings_def fetchMeetings_settle_def emit_def Let_def split: option.splits)

lemma fetchMeetings_result_indep:
  "fst (fetchMeetings ur fr w) = fst (fetchMeetings ur fr w')"
  by (cases fr)
     (simp_all add: fetchMeetings_def fetchMeetings_settle_def Let_def split: option.splits)

lemma resume_user:
  assumes "data_user d = Some u"
  shows "handleLogin_resume True (LoginResponse (Some d)) fr w =
     (case fst (fetchMeetings True fr w) of
        Inl e \<Rightarrow>
          w\<lparr>app := (app w)\<lparr>user := Some u, error := Some connection_failed, loading := False\<rparr>,
            log := log w @ [LoginSettled (Inr (Some u)), StateSet (SetUser (Some u)),
                            FetchMeetingsCalled True, FetchMeetingsSettled (Inl e),
                            StateSet (SetError (Some connection_failed)), StateSet (SetLoading False)]\<rparr>
      | Inr m \<Rightarrow>
          w\<lparr>app := (app w)\<lparr>user := Some u, data := m, loading := False\<rparr>,
            log := log w @ [LoginSettled (Inr (Some u)), StateSet (SetUser (Some u)),
                            FetchMeetingsCalled True, FetchMeetingsSettled (Inr m),
                            StateSet (SetData m), StateSet (SetLoading False)]\<rparr>)"
proof -
  let ?w1 = "setUser (Some u) (emit (LoginSettled (Inr (Some u))) w)"
  have r: "fst (fetchMeetings True fr ?w1) = fst (fetchMeetings True fr w)"
    by (rule fetchMeetings_result_indep)
  have "handleLogin_resume True (LoginResponse (Some d)) fr w =
      setLoading False
        (case fetchMeetings True fr ?w1 of
           (Inl e, w2) \<Rightarrow> setError (Some connection_failed) w2
         | (Inr m, w2) \<Rightarrow> setData m w2)"
    using assms by (simp add: handleLogin_resume_def login_settle_def)
  also have "fetchMeetings True fr ?w1 =
      (fst (fetchMeetings True fr w),
       ?w1\<lparr>log := log ?w1 @ [FetchMeetingsCalled True, FetchMeetingsSettled (fst (fetchMeetings True fr w))]\<rparr>)"
    using fetchMeetings_closed [of True fr ?w1] by (simp only: r)
  finally show ?thesis
    by (simp add: setter_defs split: sum.splits)
qed

lemma resume_stub:
  "handleLogin_resume False lr fr w =
     w\<lparr>app := (app w)\<lparr>user := Some demo_user, data := \<lparr>upcoming = [], past = []\<rparr>, loading := False\<rparr>,
       log := log w @ [LoginSettled (Inr (Some demo_user)), StateSet (SetUser (Some demo_user)),
                       FetchMeetingsCalled False, FetchMeetingsSettled (Inr \<lparr>upcoming = [], past = []\<rparr>),
                       StateSet (SetData \<lparr>upcoming = [], past = []\<rparr>), StateSet (SetLoading False)]\<rparr>"
  by (simp add: handleLogin_resume_def login_settle_def fetchMeetings_def fetchMeetings_settle_def
        setter_defs)

lemma handleLogin_real:
  "useReal (app w) \<Longrightarrow>
   handleLogin lr fr w = handleLogin_resume True lr fr (handleLogin_begin True w)"
  by (simp add: handleLogin_def)

section \<open>Logout\<close>

text \<open>
  C1, as the code has it. The logout button calls \<^verbatim>\<open>setUser(null)\<close> and nothing else: the
  user is cleared, the next render is the login screen, which displays no meeting, and
  the meeting collection held in the state keeps the value it had.
\<close>

theorem logout_clears_user_keeps_meetings:
  "user (app (onClick_logout w)) = None
   \<and> data (app (onClick_logout w)) = data (app w)
   \<and> App (app (onClick_logout w)) =
       LoginScreen (if useReal (app w) then ''Real Backend'' else ''Mock Data'') (loading (app w))
         (if truthy (error (app w)) then error (app w) else None)
   \<and> shown_meetings (App (app (onClick_logout w))) = []"
  by (simp add: onClick_logout_def setter_defs App_def shown_meetings_def)

text \<open>
  C1, as stated, fails: logging out of a session that holds one upcoming meeting leaves
  that meeting in the \<^verbatim>\<open>upcoming\<close> sequence of the state.
\<close>

theorem logout_meetings_not_cleared:
  "user (app logged_in_world) = Some alice \<and>
   user (app (onClick_logout logged_in_world)) = None \<and>
   upcoming (data (app (onClick_logout logged_in_world))) = [standup] \<and>
   upcoming (data (app (onClick_logout logged_in_world))) \<noteq> []"
  by (simp add: onClick_logout_def setter_defs logged_in_world_def)

section \<open>A failed fetch of the meetings\<close>

text \<open>
  C2, on a fresh page in real mode: the backend answers the login with the user
  \<open>alice\<close> and \<^verbatim>\<open>GET /api/meetings\<close> with status 500. The message is stored,
  \<^verbatim>\<open>loading\<close> is cleared and the collection is still empty; but \<^verbatim>\<open>setUser\<close> ran before
  the fetch and nothing undoes it, so \<^verbatim>\<open>App\<close> renders the dashboard with its two
  placeholders, and the login screen (the only place that displays the message) is not
  rendered.
\<close>

theorem fetch_failure_leaves_dashboard:
  "user (app (handleLogin user_reply http_500 fresh_world)) = Some alice \<and>
   error (app (handleLogin user_reply http_500 fresh_world)) = Some connection_failed \<and>
   loading (app (handleLogin user_reply http_500 fresh_world)) = False \<and>
   data (app (handleLogin user_reply http_500 fresh_world)) = \<lparr>upcoming = [], past = []\<rparr> \<and>
   App (app (handleLogin user_reply http_500 fresh_world)) =
     Dashboard [] (Some ''No upcoming meetings.'') [] (Some ''No past meetings.'')"
  by (simp add: flow_defs input_defs App_def)

section \<open>The order of login and fetchMeetings\<close>

lemma fetch_position:
  "events_since w (handleLogin lr fr w) = pre @ FetchMeetingsCalled b # post \<Longrightarrow>
     (\<exists>u. LoginSettled (Inr (Some u)) \<in> set pre) \<and> (\<forall>b'. FetchMeetingsCalled b' \<notin> set post)"
  by (cases lr; cases fr; cases "useReal (app w)")
     (auto simp: flow_defs Let_def Cons_eq_append_conv split: option.splits if_splits)

lemma handleLogin_user_events:
  assumes "useReal (app w)" "data_user d = Some u"
  shows "\<exists>e. events_since w (handleLogin (LoginResponse (Some d)) fr w) =
      [StateSet (SetLoading True), StateSet (SetError None), LoginCalled True,
       LoginSettled (Inr (Some u)), StateSet (SetUser (Some u)), FetchMeetingsCalled True]
      @ [FetchMeetingsSettled (fst (fetchMeetings True fr w)), StateSet e, StateSet (SetLoading False)]
      \<and> e \<noteq> SetLoading False"
  using assms
  by (cases "fst (fetchMeetings True fr w)")
     (simp_all add: handleLogin_real resume_user begin_closed events_since_def
        fetchMeetings_result_indep [of True fr "w\<lparr>app := X, log := Y\<rparr>" w for X Y])

text \<open>
  C3. In the trace of any run of \<^verbatim>\<open>handleLogin\<close> (either mode, any replies), a call of
  \<^verbatim>\<open>fetchMeetings\<close> comes after the event that settles \<^verbatim>\<open>login\<close> with a user, and no
  second call follows it. In real mode, when the login reply carries a user, the trace
  starts with the six events listed, so \<^verbatim>\<open>fetchMeetings\<close> is called exactly once; this
  happens while \<^verbatim>\<open>loading\<close> is true, and \<^verbatim>\<open>loading\<close> is cleared only by the last event
  of the run.
\<close>

theorem fetchMeetings_only_after_login_user:
  "(\<forall>pre b post. events_since w (handleLogin lr fr w) = pre @ FetchMeetingsCalled b # post \<longrightarrow>
       (\<exists>u. LoginSettled (Inr (Some u)) \<in> set pre) \<and> (\<forall>b'. FetchMeetingsCalled b' \<notin> set post))
   \<and> (useReal (app w) \<and> lr = LoginResponse (Some d) \<and> data_user d = Some u \<longrightarrow>
        fetch_calls (events_since w (handleLogin lr fr w)) = 1
      \<and> (\<exists>post. events_since w (handleLogin lr fr w) =
             [StateSet (SetLoading True), StateSet (SetError None), LoginCalled True,
              LoginSettled (Inr (Some u)), StateSet (SetUser (Some u)), FetchMeetingsCalled True]
             @ post
           \<and> StateSet (SetLoading False) \<notin> set (butlast post)
           \<and> last post = StateSet (SetLoading False))
      \<and> \<not> loading (app (handleLogin lr fr w)))"
proof (rule conjI)
  show "\<forall>pre b post. events_since w (handleLogin lr fr w) = pre @ FetchMeetingsCalled b # post \<longrightarrow>
       (\<exists>u. LoginSettled (Inr (Some u)) \<in> set pre) \<and> (\<forall>b'. FetchMeetingsCalled b' \<notin> set post)"
    using fetch_position [of w lr fr] by blast
next
  show "useReal (app w) \<and> lr = LoginResponse (Some d) \<and> data_user d = Some u \<longrightarrow>
        fetch_calls (events_since w (handleLogin lr fr w)) = 1
      \<and> (\<exists>post. events_since w (handleLogin lr fr w) =
             [StateSet (SetLoading True), StateSet (SetError None), LoginCalled True,
              LoginSettled (Inr (Some u)), StateSet (SetUser (Some u)), FetchMeetingsCalled True]
             @ post
           \<and> StateSet (SetLoading False) \<notin> set (butlast post)
           \<and> last post = StateSet (SetLoading False))
      \<and> \<not> loading (app (handleLogin lr fr w))"
  proof (intro impI conjI)
    assume a: "useReal (app w) \<and> lr = LoginResponse (Some d) \<and> data_user d = Some u"
    then obtain e where
      evs: "events_since w (handleLogin lr fr w) =
        [StateSet (SetLoading True), StateSet (SetError None), LoginCalled True,
         LoginSettled (Inr (Some u)), StateSet (SetUser (Some u)), FetchMeetingsCalled True]
        @ [FetchMeetingsSettled (fst (fetchMeetings True fr w)), StateSet e, StateSet (SetLoading False)]"
      and e: "e \<noteq> SetLoading False"
      using handleLogin_user_events [of w d u fr] by auto
    show "fetch_calls (events_since w (handleLogin lr fr w)) = 1"
      by (simp add: evs fetch_calls_def)
    show "\<exists>post. events_since w (handleLogin lr fr w) =
               [StateSet (SetLoading True), StateSet (SetError None), LoginCalled True,
                LoginSettled (Inr (Some u)), StateSet (SetUser (Some u)), FetchMeetingsCalled True]
               @ post
             \<and> StateSet (SetLoading False) \<notin> set (butlast post)
             \<and> last post = StateSet (SetLoading False)"
      using e by (simp add: evs)
    show "\<not> loading (app (handleLogin lr fr w))"
      using a by (cases "fst (fetchMeetings True fr (handleLogin_begin True w))")
        (simp_all add: handleLogin_real resume_user)
  qed
qed

theorem fetchMeetings_only_after_login_user_witness:
  "useReal (app fresh_world) \<and>
   fetch_calls (events_since fresh_world (handleLogin user_reply meetings_reply fresh_world)) = 1 \<and>
   events_since fresh_world (handleLogin user_reply meetings_reply fresh_world) =
     [StateSet (SetLoading True), StateSet (SetError None), LoginCalled True,
      LoginSettled (Inr (Some alice)), StateSet (SetUser (Some alice)), FetchMeetingsCalled True,
      FetchMeetingsSettled (Inr \<lparr>upcoming = [standup], past = []\<rparr>),
      StateSet (SetData \<lparr>upcoming = [standup], past = []\<rparr>), StateSet (SetLoading False)] \<and>
   LoginSettled (Inr (Some alice))
     \<in> set [StateSet (SetLoading True), StateSet (SetError None), LoginCalled True,
            LoginSettled (Inr (Some alice)), StateSet (SetUser (Some alice))]"
  using fetchMeetings_only_after_login_user [of fresh_world user_reply meetings_reply
      "\<lparr>data_user = Some alice, data_authUrl = None\<rparr>" alice]
  by (simp add: flow_defs input_defs)

section \<open>Stub mode\<close>

text \<open>
  C8. With the mode flag off, \<^verbatim>\<open>login\<close> resolves, whatever the backend would answer,
  with the synthetic user whose email is \<^verbatim>\<open>demo@example.com\<close>.
\<close>

theorem stub_login_resolves_demo_user:
  "fst (login False lr w) =
     Inr (Some \<lparr>name = ''Demo User'', email = ''demo@example.com'',
       avatar = ''https://ui-avatars.com/api/?name=Demo+User&background=0D8ABC&color=fff''\<rparr>)
   \<and> (\<exists>u. fst (login False lr w) = Inr (Some u) \<and> email u = ''demo@example.com'')"
  by (simp add: login_def login_settle_def demo_user_def)

section \<open>The mode button\<close>

text \<open>
  C10. A click on the mode button negates \<^verbatim>\<open>useReal\<close> and changes no other cell of the
  state (user, meeting collection, error message, loading flag), nor the window.
\<close>

theorem mode_toggle_changes_only_mode:
  "app (onClick_mode w) = (app w)\<lparr>useReal := \<not> useReal (app w)\<rparr>
   \<and> useReal (app (onClick_mode w)) = (\<not> useReal (app w))
   \<and> user (app (onClick_mode w)) = user (app w)
   \<and> data (app (onClick_mode w)) = data (app w)
   \<and> error (app (onClick_mode w)) = error (app w)
   \<and> loading (app (onClick_mode w)) = loading (app w)
   \<and> win (onClick_mode w) = win w"
  by (simp add: onClick_mode_def setter_defs)

section \<open>The redirect marker of the page URL\<close>

lemma mount_closed:
  assumes "URLSearchParams_get (search (win w)) ''status'' = Some ''success''" and "useReal (app w)"
  shows "useEffect_mount lr fr w =
     handleLogin_resume True lr fr
       (w\<lparr>app := (app w)\<lparr>loading := True, error := None\<rparr>,
          win := (win w)\<lparr>pathname := ''/'', search := []\<rparr>,
          log := log w @ [StateSet (SetLoading True), StateSet (SetError None), LoginCalled True,
                          HistoryReplaced ''/'']\<rparr>)"
  using assms by (simp add: useEffect_mount_def begin_closed replaceState_def emit_def)

lemma resume_frame:
  "\<exists>post. log (handleLogin_resume True lr fr w) = log w @ post
      \<and> login_calls post = 0 \<and> (\<forall>u. HistoryReplaced u \<notin> set post)
      \<and> pathname (win (handleLogin_resume True lr fr w)) = pathname (win w)
      \<and> search (win (handleLogin_resume True lr fr w)) = search (win w)"
proof (cases lr w rule: login_reply_cases)
  case rejected
  from resume_rejected [OF this, of fr] obtain e where
    "handleLogin_resume True lr fr w =
       w\<lparr>app := (app w)\<lparr>error := Some connection_failed, loading := False\<rparr>,
         log := log w @ [ConsoleError e, LoginSettled (Inl e),
                         StateSet (SetError (Some connection_failed)), StateSet (SetLoading False)]\<rparr>" ..
  then show ?thesis
    by (simp add: login_calls_def)
next
  case (redirect d url)
  then show ?thesis
    by (simp add: resume_redirect login_calls_def)
next
  case (user d u)
  then show ?thesis
    by (cases "fst (fetchMeetings True fr w)") (simp_all add: resume_user login_calls_def)
qed

lemma page_load_without_marker:
  "URLSearchParams_get (search wn) ''status'' \<noteq> Some ''success'' \<Longrightarrow>
   page_load wn lr fr = \<lparr>app = initial_state, win = wn, log = []\<rparr>"
  by (simp add: page_load_def useEffect_mount_def)

text \<open>
  C4. When the effect finds \<^verbatim>\<open>status=success\<close> in the page URL and the mode is real,
  then for every reply to the login (a failure included) and every reply to the fetch:
  \<^verbatim>\<open>login\<close> is entered exactly once; the trace starts with the two setters, the call of
  \<^verbatim>\<open>login\<close> and \<^verbatim>\<open>replaceState\<close>, in this order, and nothing after them enters
  \<^verbatim>\<open>login\<close> or replaces the URL again; the URL is \<^verbatim>\<open>/\<close> with no query at the end, so the
  marker is gone; and a page load at that URL runs nothing: no event, the initial state,
  the window unchanged.
\<close>

theorem redirect_marker_consumed_once:
  assumes "URLSearchParams_get (search (win w)) ''status'' = Some ''success''" and "useReal (app w)"
  shows "login_calls (events_since w (useEffect_mount lr fr w)) = 1
    \<and> (\<exists>post. events_since w (useEffect_mount lr fr w) =
          [StateSet (SetLoading True), StateSet (SetError None), LoginCalled True,
           HistoryReplaced ''/''] @ post
          \<and> login_calls post = 0 \<and> (\<forall>u. HistoryReplaced u \<notin> set post))
    \<and> pathname (win (useEffect_mount lr fr w)) = ''/''
    \<and> search (win (useEffect_mount lr fr w)) = []
    \<and> URLSearchParams_get (search (win (useEffect_mount lr fr w))) ''status'' = None
    \<and> page_load (win (useEffect_mount lr fr w)) lr' fr' =
        \<lparr>app = initial_state, win = win (useEffect_mount lr fr w), log = []\<rparr>"
proof -
  let ?w1 = "w\<lparr>app := (app w)\<lparr>loading := True, error := None\<rparr>,
          win := (win w)\<lparr>pathname := ''/'', search := []\<rparr>,
          log := log w @ [StateSet (SetLoading True), StateSet (SetError None), LoginCalled True,
                          HistoryReplaced ''/'']\<rparr>"
  have m: "useEffect_mount lr fr w = handleLogin_resume True lr fr ?w1"
    using assms by (rule mount_closed)
  from resume_frame [of lr fr ?w1] obtain post where
    l: "log (handleLogin_resume True lr fr ?w1) = log ?w1 @ post"
    and p: "login_calls post = 0" "\<forall>u. HistoryReplaced u \<notin> set post"
    and u: "pathname (win (handleLogin_resume True lr fr ?w1)) = pathname (win ?w1)"
       "search (win (handleLogin_resume True lr fr ?w1)) = search (win ?w1)"
    by blast
  have evs: "events_since w (useEffect_mount lr fr w) =
      [StateSet (SetLoading True), StateSet (SetError None), LoginCalled True,
       HistoryReplaced ''/''] @ post"
    by (simp add: m l events_since_def)
  have c: "login_calls (events_since w (useEffect_mount lr fr w)) = 1"
    using p(1) by (simp add: evs login_calls_def)
  have s: "search (win (useEffect_mount lr fr w)) = []"
    by (simp add: m u)
  have pn: "pathname (win (useEffect_mount lr fr w)) = ''/''"
    by (simp add: m u)
  have g: "URLSearchParams_get (search (win (useEffect_mount lr fr w))) ''status'' = None"
    by (simp add: s URLSearchParams_get_def)
  have r: "page_load (win (useEffect_mount lr fr w)) lr' fr' =
        \<lparr>app = initial_state, win = win (useEffect_mount lr fr w), log = []\<rparr>"
    by (rule page_load_without_marker) (simp add: g)
  from c evs p s pn g r show ?thesis by blast
qed

theorem redirect_marker_consumed_once_witness:
  "URLSearchParams_get (search (win marker_world)) ''status'' = Some ''success'' \<and>
   useReal (app marker_world) \<and>
   login_calls (events_since marker_world (useEffect_mount LoginNoResponse http_500 marker_world)) = 1 \<and>
   events_since marker_world (useEffect_mount LoginNoResponse http_500 marker_world) =
     [StateSet (SetLoading True), StateSet (SetError None), LoginCalled True, HistoryReplaced ''/'',
      ConsoleError TransportError, LoginSettled (Inl TransportError),
      StateSet (SetError (Some connection_failed)), StateSet (SetLoading False)] \<and>
   search (win (useEffect_mount LoginNoResponse http_500 marker_world)) = [] \<and>
   error (app (useEffect_mount LoginNoResponse http_500 marker_world)) = Some connection_failed \<and>
   log (page_load (win (useEffect_mount LoginNoResponse http_500 marker_world)) user_reply meetings_reply) = []"
proof -
  have h: "URLSearchParams_get (search (win marker_world)) ''status'' = Some ''success''"
    "useReal (app marker_world)"
    by (simp_all add: input_defs URLSearchParams_get_def)
  have e: "useEffect_mount LoginNoResponse http_500 marker_world =
     marker_world\<lparr>app := (app marker_world)\<lparr>loading := False, error := Some connection_failed\<rparr>,
          win := (win marker_world)\<lparr>pathname := ''/'', search := []\<rparr>,
          log := [StateSet (SetLoading True), StateSet (SetError None), LoginCalled True,
                  HistoryReplaced ''/'', ConsoleError TransportError, LoginSettled (Inl TransportError),
      StateSet (SetError (Some connection_failed)), StateSet (SetLoading False)]\<rparr>"
    by (simp add: mount_closed [OF h] handleLogin_resume_def login_settle_def login_throw_def
         setter_defs) (simp add: marker_world_def)
  show ?thesis
    using redirect_marker_consumed_once [OF h, of LoginNoResponse http_500 user_reply meetings_reply] h
    by (simp add: e events_since_def) (simp add: marker_world_def)
qed

section \<open>A login that answers with a redirect target\<close>

lemma handleLogin_redirect:
  assumes "useReal (app w)" "data_user d = None" "data_authUrl d = Some url" "url \<noteq> []"
    "href_accepts (win w) url"
  shows "handleLogin (LoginResponse (Some d)) fr w =
     w\<lparr>app := (app w)\<lparr>loading := False, error := None\<rparr>,
       win := (win w)\<lparr>location_href := Some url\<rparr>,
       log := log w @ [StateSet (SetLoading True), StateSet (SetError None), LoginCalled True,
                       LocationAssigned url, LoginSettled (Inr None), StateSet (SetLoading False)]\<rparr>"
  using assms by (simp add: handleLogin_real resume_redirect begin_closed)

text \<open>
  C5. In real mode, from the login screen (no user), when the reply to the login carries
  no user and a non-empty \<^verbatim>\<open>authUrl\<close> that the \<^verbatim>\<open>href\<close> setter of the browser accepts
  as a URL (so that \<^verbatim>\<open>login\<close> does yield the redirect): the navigation target of the
  window is that URL, no user is set (the state has none and \<^verbatim>\<open>setUser\<close> is never called),
  \<^verbatim>\<open>fetchMeetings\<close> is never called, no error is stored, and \<^verbatim>\<open>App\<close> renders the login
  screen with no error box.
\<close>

theorem login_redirect_sets_navigation_only:
  assumes "useReal (app w)" "user (app w) = None" "data_user d = None"
    "data_authUrl d = Some url" "url \<noteq> []" "href_accepts (win w) url"
  shows "location_href (win (handleLogin (LoginResponse (Some d)) fr w)) = Some url
    \<and> LocationAssigned url \<in> set (events_since w (handleLogin (LoginResponse (Some d)) fr w))
    \<and> user (app (handleLogin (LoginResponse (Some d)) fr w)) = None
    \<and> (\<forall>x. StateSet (SetUser x) \<notin> set (events_since w (handleLogin (LoginResponse (Some d)) fr w)))
    \<and> fetch_calls (events_since w (handleLogin (LoginResponse (Some d)) fr w)) = 0
    \<and> error (app (handleLogin (LoginResponse (Some d)) fr w)) = None
    \<and> App (app (handleLogin (LoginResponse (Some d)) fr w)) = LoginScreen ''Real Backend'' False None"
  using assms
  by (simp add: handleLogin_redirect events_since_def fetch_calls_def App_def truthy_def)

theorem login_redirect_sets_navigation_only_witness:
  "useReal (app fresh_world) \<and> user (app fresh_world) = None \<and>
   location_href (win (handleLogin redirect_reply meetings_reply fresh_world)) =
     Some ''https://accounts.google.com/o/oauth2/auth'' \<and>
   user (app (handleLogin redirect_reply meetings_reply fresh_world)) = None \<and>
   fetch_calls (events_since fresh_world (handleLogin redirect_reply meetings_reply fresh_world)) = 0 \<and>
   App (app (handleLogin redirect_reply meetings_reply fresh_world)) =
     LoginScreen ''Real Backend'' False None"
  using login_redirect_sets_navigation_only [of fresh_world "\<lparr>data_user = None, data_authUrl = Some ''https://accounts.google.com/o/oauth2/auth''\<rparr>"
      "''https://accounts.google.com/o/oauth2/auth''" meetings_reply]
  by (simp add: input_defs)

text \<open>
  C6, as the code has it. After \<^verbatim>\<open>login\<close> has resolved to the redirect signal (the
  reply carries no user and a non-empty \<^verbatim>\<open>authUrl\<close> that the \<^verbatim>\<open>href\<close> setter accepts),
  one more local state change happens: the \<^verbatim>\<open>finally\<close> clause calls \<^verbatim>\<open>setLoading(false)\<close>. The
  run ends with \<^verbatim>\<open>loading\<close> false and \<^verbatim>\<open>error\<close> null, every other cell of the state as
  it was, and the navigation target set.
\<close>

theorem login_redirect_clears_loading:
  assumes "useReal (app w)" "data_user d = None" "data_authUrl d = Some url" "url \<noteq> []"
    "href_accepts (win w) url"
  shows "events_since w (handleLogin (LoginResponse (Some d)) fr w) =
      [StateSet (SetLoading True), StateSet (SetError None), LoginCalled True,
       LocationAssigned url, LoginSettled (Inr None), StateSet (SetLoading False)]
    \<and> loading (app (handleLogin (LoginResponse (Some d)) fr w)) = False
    \<and> app (handleLogin (LoginResponse (Some d)) fr w) = (app w)\<lparr>loading := False, error := None\<rparr>
    \<and> location_href (win (handleLogin (LoginResponse (Some d)) fr w)) = Some url"
  using assms
  by (simp add: handleLogin_redirect events_since_def)

theorem login_redirect_clears_loading_witness:
  "useReal (app fresh_world) \<and>
   events_since fresh_world (handleLogin redirect_reply http_500 fresh_world) =
      [StateSet (SetLoading True), StateSet (SetError None), LoginCalled True,
       LocationAssigned ''https://accounts.google.com/o/oauth2/auth'', LoginSettled (Inr None),
       StateSet (SetLoading False)] \<and>
   app (handleLogin redirect_reply http_500 fresh_world) = initial_state"
  using login_redirect_clears_loading [of fresh_world "\<lparr>data_user = None, data_authUrl = Some ''https://accounts.google.com/o/oauth2/auth''\<rparr>"
      "''https://accounts.google.com/o/oauth2/auth''" http_500]
  by (simp add: input_defs)

text \<open>
  C6, as stated, fails: on a fresh page whose login is answered with a redirect target
  that the browser accepts,
  \<^verbatim>\<open>loading\<close> is true once \<^verbatim>\<open>handleLogin\<close> has started and false when it ends; the
  last event of the trace, after the redirect signal, is \<^verbatim>\<open>setLoading(false)\<close>.
\<close>

theorem login_redirect_not_authenticating:
  "loading (app (handleLogin_begin True fresh_world)) \<and>
   \<not> loading (app (handleLogin redirect_reply http_500 fresh_world)) \<and>
   events_since fresh_world (handleLogin redirect_reply http_500 fresh_world) =
      [StateSet (SetLoading True), StateSet (SetError None), LoginCalled True,
       LocationAssigned ''https://accounts.google.com/o/oauth2/auth'', LoginSettled (Inr None),
       StateSet (SetLoading False)]"
  by (simp add: flow_defs input_defs truthy_def)

section \<open>A login that fails\<close>

text \<open>
  C7, as the code has it. In real mode the promise of \<^verbatim>\<open>login\<close> rejects exactly when
  the request fails, or the body cannot be read, or the body carries no user and either
  no truthy (non-empty) \<^verbatim>\<open>authUrl\<close> or an \<^verbatim>\<open>authUrl\<close> that the \<^verbatim>\<open>href\<close> setter refuses.
  Whenever it rejects, \<^verbatim>\<open>handleLogin\<close> stores the one fixed message, clears
  \<^verbatim>\<open>loading\<close>, leaves user, meeting collection and window as they were, has entered
  \<^verbatim>\<open>login\<close> exactly once (no retry) and \<^verbatim>\<open>fetchMeetings\<close> never; from the login screen,
  \<^verbatim>\<open>App\<close> then renders the login screen with that message in the error box.
\<close>

theorem login_failure_collapsed_to_message:
  "(isl (fst (login True lr w)) \<longleftrightarrow>
      lr = LoginNoResponse \<or> lr = LoginResponse None \<or>
      (\<exists>d. lr = LoginResponse (Some d) \<and> data_user d = None \<and>
           (\<not> truthy (data_authUrl d) \<or>
            (\<exists>url. data_authUrl d = Some url \<and> \<not> href_accepts (win w) url))))
   \<and> (useReal (app w) \<and> isl (fst (login True lr w)) \<longrightarrow>
        error (app (handleLogin lr fr w)) = Some connection_failed
      \<and> \<not> loading (app (handleLogin lr fr w))
      \<and> user (app (handleLogin lr fr w)) = user (app w)
      \<and> data (app (handleLogin lr fr w)) = data (app w)
      \<and> win (handleLogin lr fr w) = win w
      \<and> login_calls (events_since w (handleLogin lr fr w)) = 1
      \<and> fetch_calls (events_since w (handleLogin lr fr w)) = 0
      \<and> (user (app w) = None \<longrightarrow>
           App (app (handleLogin lr fr w)) = LoginScreen ''Real Backend'' False (Some connection_failed)))"
proof (intro conjI impI)
  have "win (login_issue True w) = win w"
    by (simp add: login_issue_def emit_def)
  then show "isl (fst (login True lr w)) \<longleftrightarrow>
      lr = LoginNoResponse \<or> lr = LoginResponse None \<or>
      (\<exists>d. lr = LoginResponse (Some d) \<and> data_user d = None \<and>
           (\<not> truthy (data_authUrl d) \<or>
            (\<exists>url. data_authUrl d = Some url \<and> \<not> href_accepts (win w) url)))"
    by (simp add: login_def login_settle_rejects_iff)
next
  assume a: "useReal (app w) \<and> isl (fst (login True lr w))"
  let ?w1 = "handleLogin_begin True w"
  have "win (login_issue True w) = win ?w1"
    by (simp add: login_issue_def emit_def begin_closed)
  with a have "isl (fst (login_settle True lr ?w1))"
    by (simp add: login_def login_settle_rejects_iff)
  from resume_rejected [OF this, of fr] a obtain e where
    h: "handleLogin lr fr w =
      ?w1\<lparr>app := (app ?w1)\<lparr>error := Some connection_failed, loading := False\<rparr>,
        log := log ?w1 @ [ConsoleError e, LoginSettled (Inl e),
                         StateSet (SetError (Some connection_failed)), StateSet (SetLoading False)]\<rparr>"
    by (auto simp: handleLogin_def)
  show "error (app (handleLogin lr fr w)) = Some connection_failed"
    by (simp add: h)
  show "\<not> loading (app (handleLogin lr fr w))"
    by (simp add: h)
  show "user (app (handleLogin lr fr w)) = user (app w)"
    by (simp add: h begin_closed)
  show "data (app (handleLogin lr fr w)) = data (app w)"
    by (simp add: h begin_closed)
  show "win (handleLogin lr fr w) = win w"
    by (simp add: h begin_closed)
  show "login_calls (events_since w (handleLogin lr fr w)) = 1"
    by (simp add: h begin_closed events_since_def login_calls_def)
  show "fetch_calls (events_since w (handleLogin lr fr w)) = 0"
    by (simp add: h begin_closed events_since_def fetch_calls_def)
  show "App (app (handleLogin lr fr w)) = LoginScreen ''Real Backend'' False (Some connection_failed)"
    if "user (app w) = None"
    using that a by (simp add: h begin_closed App_def truthy_def connection_failed_def)
qed

theorem login_failure_collapsed_to_message_witness:
  "useReal (app fresh_world) \<and> user (app fresh_world) = None \<and>
   isl (fst (login True empty_reply fresh_world)) \<and>
   isl (fst (login True unparseable_reply fresh_world)) \<and>
   \<not> isl (fst (login True redirect_reply fresh_world)) \<and>
   error (app (handleLogin empty_reply meetings_reply fresh_world)) = Some connection_failed \<and>
   login_calls (events_since fresh_world (handleLogin empty_reply meetings_reply fresh_world)) = 1 \<and>
   App (app (handleLogin empty_reply meetings_reply fresh_world)) =
     LoginScreen ''Real Backend'' False (Some connection_failed) \<and>
   App (app (handleLogin unparseable_reply meetings_reply fresh_world)) =
     LoginScreen ''Real Backend'' False (Some connection_failed)"
  using login_failure_collapsed_to_message [of empty_reply fresh_world meetings_reply]
    login_failure_collapsed_to_message [of unparseable_reply fresh_world meetings_reply]
    login_failure_collapsed_to_message [of redirect_reply fresh_world meetings_reply]
  by (simp add: input_defs truthy_def)

text \<open>
  C7, as stated, fails: the reply \<^verbatim>\<open>{ authUrl: "https://" }\<close> carries a redirect target,
  a truthy \<^verbatim>\<open>authUrl\<close>, and the request did not fail; yet the \<^verbatim>\<open>href\<close> setter throws
  on it inside the \<^verbatim>\<open>try\<close> of \<^verbatim>\<open>login\<close>, so \<^verbatim>\<open>login\<close> rejects, no navigation target is
  set, and \<^verbatim>\<open>handleLogin\<close> stores the message.
\<close>

theorem login_rejects_unparseable_redirect:
  "unparseable_reply = LoginResponse (Some \<lparr>data_user = None, data_authUrl = Some ''https://''\<rparr>) \<and>
   truthy (Some ''https://'') \<and>
   fst (login True unparseable_reply fresh_world) = Inl InvalidUrl \<and>
   location_href (win (handleLogin unparseable_reply http_500 fresh_world)) = None \<and>
   error (app (handleLogin unparseable_reply http_500 fresh_world)) = Some connection_failed \<and>
   events_since fresh_world (handleLogin unparseable_reply http_500 fresh_world) =
     [StateSet (SetLoading True), StateSet (SetError None), LoginCalled True,
      ConsoleError InvalidUrl, LoginSettled (Inl InvalidUrl),
      StateSet (SetError (Some connection_failed)), StateSet (SetLoading False)]"
  by (simp add: flow_defs input_defs truthy_def)

section \<open>The meeting card\<close>

text \<open>
  C9. The card is determined by the ambient locale and time zone and by what the card
  reads of the meeting: its \<^verbatim>\<open>startTime\<close>, its \<^verbatim>\<open>title\<close>, the number of its attendees and
  the truthiness of its \<^verbatim>\<open>link\<close>. Two renders that agree on these give the same card; in
  particular two renders of the same meeting under the same locale and time zone do.
  \<open>MeetingCard\<close> takes no \<open>world\<close> and returns none: the component reads no state,
  calls no service and performs no effect.
\<close>

theorem MeetingCard_determined_by_inputs:
  "amb_locale a = amb_locale a' \<Longrightarrow> amb_timeZone a = amb_timeZone a' \<Longrightarrow>
   startTime m = startTime m' \<Longrightarrow> title m = title m' \<Longrightarrow>
   length (attendees m) = length (attendees m') \<Longrightarrow> truthy (link m) = truthy (link m') \<Longrightarrow>
   MeetingCard fd ft a m = MeetingCard fd ft a' m'"
  by (simp add: MeetingCard_def)

theorem MeetingCard_determined_by_inputs_witness:
  "MeetingCard (\<lambda>l z s. take 10 s) (\<lambda>l z s. take 5 (drop 11 s))
     \<lparr>amb_locale = ''en-US'', amb_timeZone = ''UTC''\<rparr> standup =
   MeetingCard (\<lambda>l z s. take 10 s) (\<lambda>l z s. take 5 (drop 11 s))
     \<lparr>amb_locale = ''en-US'', amb_timeZone = ''UTC''\<rparr> standup_again \<and>
   MeetingCard (\<lambda>l z s. take 10 s) (\<lambda>l z s. take 5 (drop 11 s))
     \<lparr>amb_locale = ''en-US'', amb_timeZone = ''UTC''\<rparr> standup =
   \<lparr>card_date = ''2024-05-01'', card_title = ''Standup'', card_time = ''09:00'',
    card_attendees = 1, card_video = True\<rparr>"
  using MeetingCard_determined_by_inputs [of "\<lparr>amb_locale = ''en-US'', amb_timeZone = ''UTC''\<rparr>"
      "\<lparr>amb_locale = ''en-US'', amb_timeZone = ''UTC''\<rparr>" standup standup_again
      "\<lambda>l z s. take 10 s" "\<lambda>l z s. take 5 (drop 11 s)"]
  by (simp add: MeetingCard_def standup_def standup_again_def truthy_def)

end
